theory Spec2Isabelle
  imports Main "HOL-Library.Word" "HOL-Library.Signed_Division" "HOL-Library.Sublist"
begin

section \<open>The native security monitor of native-lib.cpp\<close>

text \<open>
  The development embeds \<^verbatim>\<open>app/src/main/cpp/native-lib.cpp\<close>. The file keeps five
  mutable globals, reads the operating system through libc and bionic calls, and reacts
  through \<^verbatim>\<open>prctl\<close>, \<^verbatim>\<open>write\<close>, \<^verbatim>\<open>pthread_create\<close> and a leaked allocation.

  \<^item> The globals are a record that every function takes and returns.
  \<^item> What the operating system answers during one call is a record \<open>env\<close>; a probe is a
    function of it.
  \<^item> What a function does to the outside world is a list of \<open>action\<close>s, in program order.
  \<^item> \<^verbatim>\<open>int\<close> and \<^verbatim>\<open>time_t\<close> values are \<open>int\<close>; the C operator \<^verbatim>\<open>%\<close> truncates towards
    zero and is \<open>smod\<close>. Signed overflow is undefined in C++; no function below relies on a
    bound, and the theorems about a loop iteration hold for every counter value.
\<close>

subsection \<open>Globals\<close>

text \<open>
  \<^verbatim>\<open>gJavaVM\<close> is a pointer (0 is \<^verbatim>\<open>nullptr\<close>). \<^verbatim>\<open>gSecurityThread\<close> and \<^verbatim>\<open>gSecurityMutex\<close> carry
  no value the program reads: the mutex makes the test-and-set of \<^verbatim>\<open>JNI_OnLoad\<close> one step,
  which is how \<open>JNI_OnLoad\<close> is written below.
\<close>

record globals =
  gJavaVM :: nat
  gSecurityThreadRunning :: bool
  gSecurityLevel :: int
  gLastEmulatorCheck :: int
  gIsEmulator :: bool

definition initial_globals :: globals where
  "initial_globals =
     \<lparr>gJavaVM = 0, gSecurityThreadRunning = False, gSecurityLevel = 1,
      gLastEmulatorCheck = 0, gIsEmulator = False\<rparr>"

subsection \<open>The operating system as seen by one call\<close>

record timespec =
  tv_sec :: int
  tv_nsec :: int

text \<open>
  \<open>ReadError\<close> is \<^verbatim>\<open>read\<close> returning a negative count, \<open>ReadBytes bs\<close> is \<^verbatim>\<open>read\<close> delivering
  the bytes \<open>bs\<close> (none at end of file).
\<close>

datatype read_outcome = ReadError | ReadBytes string

record env =
  time_now :: int  \<comment> \<open>\<^verbatim>\<open>time(nullptr)\<close>\<close>
  proc_self_status :: "read_outcome option"
    \<comment> \<open>\<open>None\<close>: \<^verbatim>\<open>open("/proc/self/status")\<close> fails; otherwise what \<^verbatim>\<open>read\<close> does\<close>
  dlopen_ok :: "string \<Rightarrow> bool"  \<comment> \<open>\<^verbatim>\<open>dlopen(name, RTLD_NOW)\<close> is not null\<close>
  proc_self_maps_dir :: "string list option"
    \<comment> \<open>\<open>None\<close>: \<^verbatim>\<open>opendir("/proc/self/maps")\<close> is null; otherwise the names \<^verbatim>\<open>readdir\<close> yields\<close>
  stat_ok :: "string \<Rightarrow> bool"  \<comment> \<open>\<^verbatim>\<open>stat(path, &s) == 0\<close>\<close>
  system_property :: "string \<Rightarrow> string"
    \<comment> \<open>the value \<^verbatim>\<open>__system_property_get\<close> writes, empty for an unset property\<close>
  clock_start :: timespec  \<comment> \<open>first \<^verbatim>\<open>clock_gettime(CLOCK_MONOTONIC)\<close>\<close>
  clock_end :: timespec  \<comment> \<open>second \<^verbatim>\<open>clock_gettime(CLOCK_MONOTONIC)\<close>\<close>
  prctl_set_dumpable :: int  \<comment> \<open>result of \<^verbatim>\<open>prctl(PR_SET_DUMPABLE, 0, ...)\<close>\<close>
  prctl_set_name :: "string \<Rightarrow> int"  \<comment> \<open>result of \<^verbatim>\<open>prctl(PR_SET_NAME, name, ...)\<close>\<close>
  open_cmdline :: int  \<comment> \<open>result of \<^verbatim>\<open>open("/proc/self/cmdline", O_WRONLY)\<close>\<close>
  write_cmdline :: int  \<comment> \<open>result of \<^verbatim>\<open>write\<close> on that descriptor\<close>
  pthread_create_result :: int  \<comment> \<open>result of \<^verbatim>\<open>pthread_create\<close>, 0 when the thread exists\<close>

subsection \<open>Effects on the outside world\<close>

datatype action =
    PthreadCreate  \<comment> \<open>\<^verbatim>\<open>pthread_create(&gSecurityThread, ..., securityMonitorThread, ...)\<close>\<close>
  | PrctlSetDumpable  \<comment> \<open>\<^verbatim>\<open>prctl(PR_SET_DUMPABLE, 0, 0, 0, 0)\<close>\<close>
  | PrctlSetName string  \<comment> \<open>\<^verbatim>\<open>prctl(PR_SET_NAME, name, 0, 0, 0)\<close>\<close>
  | LeakNoiseBuffer nat  \<comment> \<open>\<^verbatim>\<open>new char[n]\<close> filled with \<^verbatim>\<open>rand() % 256\<close>, never deleted\<close>
  | WriteCmdline string nat  \<comment> \<open>\<^verbatim>\<open>write(fd, text, count)\<close> on \<^verbatim>\<open>/proc/self/cmdline\<close>\<close>
  | Usleep int  \<comment> \<open>\<^verbatim>\<open>usleep(microseconds)\<close>\<close>

text \<open>The calls the emulator probe makes, recorded so that a cache hit can be told apart.\<close>

datatype probe_call = PropertyGet string | Stat string

subsection \<open>libc\<close>

text \<open>
  A C string ends at its first NUL byte. \<^verbatim>\<open>strstr(hay, needle)\<close> returns the suffix of
  \<open>hay\<close> that starts at the first occurrence of \<open>needle\<close>, or null.
\<close>

definition c_str :: "string \<Rightarrow> string" where
  "c_str bs = takeWhile (\<lambda>c. c \<noteq> CHR 0x00) bs"

fun strstr :: "string \<Rightarrow> string \<Rightarrow> string option" where
  "strstr [] needle = (if needle = [] then Some [] else None)"
| "strstr (c # cs) needle =
     (if prefix needle (c # cs) then Some (c # cs) else strstr cs needle)"

definition isspace :: "char \<Rightarrow> bool" where
  "isspace c \<longleftrightarrow> c \<in> set [CHR 0x20, CHR 0x09, CHR 0x0A, CHR 0x0B, CHR 0x0C, CHR 0x0D]"

definition isdigit :: "char \<Rightarrow> bool" where
  "isdigit c \<longleftrightarrow> 48 \<le> (of_char c :: nat) \<and> (of_char c :: nat) \<le> 57"

definition digit_value :: "char \<Rightarrow> int" where
  "digit_value c = int (of_char c) - 48"

definition decimal :: "string \<Rightarrow> int" where
  "decimal ds = foldl (\<lambda>acc c. 10 * acc + digit_value c) 0 ds"

text \<open>
  \<^verbatim>\<open>sscanf(s, "%d", &x)\<close>: white space is skipped, then an optional sign and a non-empty run
  of decimal digits are converted. \<open>Some v\<close> is the return value 1 with \<open>v\<close> stored;
  \<open>None\<close> is every other return value (0, or \<^verbatim>\<open>EOF\<close> on an exhausted input). The C
  standard leaves a value outside the range of \<^verbatim>\<open>int\<close> undefined; the model converts it
  without a bound.
\<close>

definition sscanf_d :: "string \<Rightarrow> int option" where
  "sscanf_d s =
     (let s1 = dropWhile isspace s;
          neg = (case s1 of [] \<Rightarrow> False | c # _ \<Rightarrow> c = CHR ''-'');
          s2 = (case s1 of [] \<Rightarrow> [] | c # r \<Rightarrow> if c = CHR ''-'' \<or> c = CHR ''+'' then r else s1);
          ds = takeWhile isdigit s2
      in if ds = [] then None else Some (if neg then - decimal ds else decimal ds))"

subsection \<open>Signal collectors\<close>

definition tracer_needle :: string where
  "tracer_needle = ''TracerPid:''"

text \<open>
  \<^verbatim>\<open>isBeingTraced\<close>: the buffer has 512 bytes, \<^verbatim>\<open>read\<close> is asked for 511, the byte after
  the data is set to NUL, and \<^verbatim>\<open>strstr\<close> and \<^verbatim>\<open>sscanf\<close> see the buffer as a C string.
\<close>

definition isBeingTraced :: "env \<Rightarrow> bool" where
  "isBeingTraced env =
     (case proc_self_status env of
        None \<Rightarrow> False
      | Some ReadError \<Rightarrow> False
      | Some (ReadBytes bs) \<Rightarrow>
          (let data = take 511 bs in
           if length data \<le> 0 then False
           else
             (case strstr (c_str data) tracer_needle of
                None \<Rightarrow> False
              | Some tracer_pid_line \<Rightarrow>
                  (case sscanf_d (drop (length tracer_needle) tracer_pid_line) of
                     None \<Rightarrow> False
                   | Some tracer_pid \<Rightarrow> tracer_pid \<noteq> 0))))"

definition blockPtraceAttach :: "env \<Rightarrow> bool \<times> action list" where
  "blockPtraceAttach env = (prctl_set_dumpable env = 0, [PrctlSetDumpable])"

definition magisk_paths :: "string list" where
  "magisk_paths =
     [''/sbin/.magisk'', ''/sbin/.core'', ''/data/adb/magisk'',
      ''/cache/.disable_magisk'', ''/dev/.magisk.db'']"

definition detectMagiskHooks :: "env \<Rightarrow> bool" where
  "detectMagiskHooks env =
     (if list_ex (stat_ok env) magisk_paths then True
      else if length (system_property env ''ro.magisk.hide'') > 0 then True
      else False)"

definition isHookingFrameworkPresent :: "env \<Rightarrow> bool" where
  "isHookingFrameworkPresent env =
     (if dlopen_ok env ''libxposed_art.so'' then True
      else if dlopen_ok env ''libsubstrate.so'' then True
      else if (case proc_self_maps_dir env of
                 None \<Rightarrow> False
               | Some names \<Rightarrow> list_ex (\<lambda>d_name. strstr d_name ''frida'' \<noteq> None) names)
      then True
      else if detectMagiskHooks env then True
      else False)"

definition emulator_props :: "string list" where
  "emulator_props =
     [''ro.hardware'', ''ro.product.model'', ''ro.product.manufacturer'', ''ro.kernel.qemu'',
      ''ro.bootloader'', ''ro.bootmode'', ''ro.build.characteristics'']"

definition emulator_values :: "string list" where
  "emulator_values =
     [''goldfish'', ''ranchu'', ''sdk'', ''sdk_gphone'', ''emulator'',
      ''Genymotion'', ''vbox'', ''nox'', ''bluestacks'', ''android_x86'']"

definition emulator_files :: "string list" where
  "emulator_files =
     [''/dev/socket/qemud'', ''/dev/qemu_pipe'', ''/system/lib/libc_malloc_debug_qemu.so'',
      ''/sys/qemu_trace'', ''/system/bin/qemu-props'', ''/dev/socket/genyd'',
      ''/dev/socket/baseband_genyd'']"

text \<open>
  The two loops of \<^verbatim>\<open>detectEmulator\<close>. Each stops at the first hit (\<^verbatim>\<open>goto end_check\<close>) and
  returns whether it hit, with the calls it made up to there.
\<close>

fun scan_emulator_props :: "env \<Rightarrow> string list \<Rightarrow> bool \<times> probe_call list" where
  "scan_emulator_props env [] = (False, [])"
| "scan_emulator_props env (prop # props) =
     (let prop_value = system_property env prop in
      if list_ex (\<lambda>v. strstr prop_value v \<noteq> None) emulator_values
      then (True, [PropertyGet prop])
      else (let (hit, calls) = scan_emulator_props env props
            in (hit, PropertyGet prop # calls)))"

fun scan_emulator_files :: "env \<Rightarrow> string list \<Rightarrow> bool \<times> probe_call list" where
  "scan_emulator_files env [] = (False, [])"
| "scan_emulator_files env (file # files) =
     (if stat_ok env file then (True, [Stat file])
      else (let (hit, calls) = scan_emulator_files env files
            in (hit, Stat file # calls)))"

text \<open>
  The part of \<^verbatim>\<open>detectEmulator\<close> between the assignment of \<^verbatim>\<open>gLastEmulatorCheck\<close> and the label
  \<^verbatim>\<open>end_check\<close>: the value of \<^verbatim>\<open>result\<close> and the calls made.
\<close>

definition emulator_checks :: "env \<Rightarrow> bool \<times> probe_call list" where
  "emulator_checks env =
     (let (by_prop, calls1) = scan_emulator_props env emulator_props in
      if by_prop then (True, calls1)
      else (let (by_file, calls2) = scan_emulator_files env emulator_files
            in (by_file, calls1 @ calls2)))"

definition detectEmulator :: "env \<Rightarrow> globals \<Rightarrow> bool \<times> globals \<times> probe_call list" where
  "detectEmulator env g =
     (let now = time_now env in
      if now - gLastEmulatorCheck g < 60 \<and> gLastEmulatorCheck g \<noteq> 0
      then (gIsEmulator g, g, [])
      else
        (let g1 = g\<lparr>gLastEmulatorCheck := now\<rparr>;
             (result, calls) = emulator_checks env
         in (result, g1\<lparr>gIsEmulator := result\<rparr>, calls)))"

definition detectTimingAnomaly :: "env \<Rightarrow> bool" where
  "detectTimingAnomaly env =
     (let elapsed_ns =
            (tv_sec (clock_end env) - tv_sec (clock_start env)) * 1000000000
            + (tv_nsec (clock_end env) - tv_nsec (clock_start env))
      in elapsed_ns > 10000000)"

definition container_files :: "string list" where
  "container_files = [''/.dockerenv'', ''/dev/lxc'', ''/dev/vboxguest'', ''/dev/vboxuser'']"

definition detectVirtualEnvironment :: "env \<Rightarrow> bool" where
  "detectVirtualEnvironment env = list_ex (stat_ok env) container_files"

subsection \<open>Counter-measures and the level setter\<close>

definition obfuscateMemory :: "action list" where
  "obfuscateMemory = [LeakNoiseBuffer 1024]"

definition setSecurityLevel :: "int \<Rightarrow> globals \<Rightarrow> globals" where
  "setSecurityLevel level g =
     (if level \<ge> 1 \<and> level \<le> 3 then g\<lparr>gSecurityLevel := level\<rparr> else g)"

definition spoofProcessName :: "env \<Rightarrow> string \<Rightarrow> bool \<times> action list" where
  "spoofProcessName env new_name =
     (if prctl_set_name env new_name = 0 then (True, [PrctlSetName new_name])
      else (False, [PrctlSetName new_name]))"

text \<open>
  \<^verbatim>\<open>hideProcessInfo\<close> does not use its argument, and the result of \<^verbatim>\<open>write\<close> is dropped.
  The count written is \<^verbatim>\<open>strlen(fake_cmdline) + 1\<close>.
\<close>

definition fake_cmdline :: string where
  "fake_cmdline = ''system_server''"

definition hideProcessInfo :: "env \<Rightarrow> int \<Rightarrow> bool \<times> action list" where
  "hideProcessInfo env pid =
     (let fd = open_cmdline env;
          acts = (if fd \<ge> 0 then [WriteCmdline fake_cmdline (length fake_cmdline + 1)] else [])
      in (True, acts))"

subsection \<open>The monitor loop\<close>

definition system_procs :: "string list" where
  "system_procs = [''system_server'', ''zygote'', ''media'', ''surfaceflinger'']"

text \<open>
  Reading a C array: inside its bounds the element, outside them undefined behaviour,
  which is \<open>None\<close> here.
\<close>

definition array_read :: "'a list \<Rightarrow> int \<Rightarrow> 'a option" where
  "array_read xs i = (if 0 \<le> i \<and> i < int (length xs) then Some (xs ! nat i) else None)"

text \<open>
  What the body of the \<^verbatim>\<open>if (traced || hooked || ...)\<close> block does: the branch on the level,
  then the renaming when the counter is a multiple of 20. An index outside \<open>system_procs\<close>
  would be undefined behaviour and issues no action in the model; \<open>idx\<close> is 0 whenever
  the read is reached.
\<close>

definition apply_protections :: "env \<Rightarrow> globals \<Rightarrow> int \<Rightarrow> action list" where
  "apply_protections env g check_counter =
     (if gSecurityLevel g \<ge> 3 then obfuscateMemory @ snd (blockPtraceAttach env)
      else if gSecurityLevel g \<ge> 2 then snd (blockPtraceAttach env)
      else [])
     @ (if check_counter smod 20 = 0 then
          (let idx = check_counter smod 4 in
           case array_read system_procs idx of
             None \<Rightarrow> []
           | Some name \<Rightarrow> snd (spoofProcessName env name))
        else [])"

definition sleep_time_ms :: "globals \<Rightarrow> int" where
  "sleep_time_ms g =
     (if gSecurityLevel g = 3 then 100
      else if gSecurityLevel g = 2 then 200
      else if gSecurityLevel g = 1 then 300
      else 300)"

text \<open>
  One pass through the body of the \<^verbatim>\<open>while\<close> loop of \<^verbatim>\<open>securityMonitorThread\<close>, from the
  globals and the value of \<^verbatim>\<open>check_counter\<close> to the globals, the incremented counter and
  the actions taken.
\<close>

record signals =
  sig_traced :: bool
  sig_hooked :: bool
  sig_in_emulator :: bool
  sig_in_virtual_env :: bool
  sig_timing_anomaly :: bool

definition iteration_signals :: "env \<Rightarrow> globals \<Rightarrow> int \<Rightarrow> signals \<times> globals" where
  "iteration_signals env g check_counter =
     (let traced = isBeingTraced env;
          hooked = isHookingFrameworkPresent env;
          (in_emulator, g1) =
             (if check_counter smod 10 = 0
              then (let (r, g', calls) = detectEmulator env g in (r, g'))
              else (False, g));
          in_virtual_env =
             (if check_counter smod 10 = 0 then detectVirtualEnvironment env else False);
          timing_anomaly =
             (if check_counter smod 5 = 0 then detectTimingAnomaly env else False)
      in (\<lparr>sig_traced = traced, sig_hooked = hooked, sig_in_emulator = in_emulator,
           sig_in_virtual_env = in_virtual_env, sig_timing_anomaly = timing_anomaly\<rparr>, g1))"

definition any_threat :: "signals \<Rightarrow> bool" where
  "any_threat s \<longleftrightarrow>
     sig_traced s \<or> sig_hooked s \<or> sig_timing_anomaly s \<or> sig_in_emulator s
     \<or> sig_in_virtual_env s"

definition monitor_iteration :: "env \<Rightarrow> globals \<Rightarrow> int \<Rightarrow> globals \<times> int \<times> action list" where
  "monitor_iteration env g check_counter =
     (let (s, g1) = iteration_signals env g check_counter;
          acts = (if any_threat s then apply_protections env g1 check_counter else [])
      in (g1, check_counter + 1, acts @ [Usleep (sleep_time_ms g1 * 1000)]))"

text \<open>
  The loop itself, one \<open>env\<close> per pass: it runs while the flag is set and stops when the
  list is used up.
\<close>

fun securityMonitorThread :: "env list \<Rightarrow> globals \<Rightarrow> int \<Rightarrow> globals \<times> int \<times> action list" where
  "securityMonitorThread [] g check_counter = (g, check_counter, [])"
| "securityMonitorThread (env # envs) g check_counter =
     (if gSecurityThreadRunning g then
        (let (g1, c1, acts1) = monitor_iteration env g check_counter;
             (g2, c2, acts2) = securityMonitorThread envs g1 c1
         in (g2, c2, acts1 @ acts2))
      else (g, check_counter, []))"

subsection \<open>JNI entry points\<close>

type_synonym jboolean = "8 word"

definition JNI_TRUE :: jboolean where
  "JNI_TRUE = 1"

definition JNI_FALSE :: jboolean where
  "JNI_FALSE = 0"

definition to_jboolean :: "bool \<Rightarrow> jboolean" where
  "to_jboolean b = (if b then JNI_TRUE else JNI_FALSE)"

definition JNI_VERSION_1_6 :: int where
  "JNI_VERSION_1_6 = 0x00010006"

definition JNI_OnLoad :: "nat \<Rightarrow> globals \<Rightarrow> int \<times> globals \<times> action list" where
  "JNI_OnLoad vm g =
     (let g1 = g\<lparr>gJavaVM := vm\<rparr> in
      if \<not> gSecurityThreadRunning g1
      then (JNI_VERSION_1_6, g1\<lparr>gSecurityThreadRunning := True\<rparr>, [PthreadCreate])
      else (JNI_VERSION_1_6, g1, []))"

definition nativeSpoofProcessName :: "env \<Rightarrow> string \<Rightarrow> jboolean \<times> action list" where
  "nativeSpoofProcessName env name =
     (let (result, acts) = spoofProcessName env name in (to_jboolean result, acts))"

definition nativeHideProcessInfo :: "env \<Rightarrow> int \<Rightarrow> jboolean \<times> action list" where
  "nativeHideProcessInfo env pid =
     (let (result, acts) = hideProcessInfo env pid in (to_jboolean result, acts))"

definition isBeingAnalyzedNative :: "env \<Rightarrow> globals \<Rightarrow> jboolean \<times> globals" where
  "isBeingAnalyzedNative env g =
     (let traced = isBeingTraced env;
          hooked = isHookingFrameworkPresent env;
          timing_anomaly = detectTimingAnomaly env;
          (in_emulator, g1, calls) = detectEmulator env g
      in if gSecurityLevel g1 \<ge> 3
         then (to_jboolean (traced \<or> hooked \<or> timing_anomaly \<or> in_emulator), g1)
         else if gSecurityLevel g1 \<ge> 2
         then (to_jboolean (traced \<or> hooked \<or> timing_anomaly), g1)
         else (to_jboolean (traced \<or> hooked), g1))"

definition isAppInForegroundNative :: "string \<Rightarrow> jboolean" where
  "isAppInForegroundNative package_name = JNI_TRUE"

definition initializeNativeSecurity :: "env \<Rightarrow> globals \<Rightarrow> globals \<times> action list" where
  "initializeNativeSecurity env g =
     (let (blocked, acts) = blockPtraceAttach env;
          (is_emulator, g1, calls) = detectEmulator env g;
          has_hooks = isHookingFrameworkPresent env
      in if is_emulator \<or> has_hooks then (setSecurityLevel 3 g1, acts)
         else (setSecurityLevel 1 g1, acts))"

definition setNativeSecurityLevel :: "int \<Rightarrow> globals \<Rightarrow> globals" where
  "setNativeSecurityLevel level g = setSecurityLevel level g"

definition isRunningInEmulator :: "env \<Rightarrow> globals \<Rightarrow> jboolean \<times> globals" where
  "isRunningInEmulator env g =
     (let (r, g1, calls) = detectEmulator env g in (to_jboolean r, g1))"

definition hasHookFramework :: "env \<Rightarrow> jboolean" where
  "hasHookFramework env = to_jboolean (isHookingFrameworkPresent env)"

subsection \<open>The process: entry points and loop passes in any order\<close>

text \<open>
  A process is its globals and the counters of the monitor threads that exist. An event is
  one call of an entry point, or one loop pass of the monitor thread with a given index.
  \<^verbatim>\<open>pthread_create\<close> makes a thread, starting at \<^verbatim>\<open>check_counter = 0\<close>, when it returns 0. A
  thread that finds the flag cleared leaves its loop and is gone.
\<close>

record process =
  glob :: globals
  monitors :: "int list"

definition initial_process :: process where
  "initial_process = \<lparr>glob = initial_globals, monitors = []\<rparr>"

datatype event =
    Load nat
  | SpoofProcessNameCall string
  | HideProcessInfoCall int
  | IsBeingAnalyzedCall
  | IsAppInForegroundCall string
  | InitializeSecurityCall
  | SetSecurityLevelCall int
  | IsRunningInEmulatorCall
  | HasHookFrameworkCall
  | MonitorPass nat

fun step :: "env \<Rightarrow> event \<Rightarrow> process \<Rightarrow> process \<times> action list" where
  "step env (Load vm) p =
     (let (version, g1, acts) = JNI_OnLoad vm (glob p);
          started = (PthreadCreate \<in> set acts \<and> pthread_create_result env = 0)
      in (\<lparr>glob = g1, monitors = (if started then monitors p @ [0] else monitors p)\<rparr>, acts))"
| "step env (SpoofProcessNameCall name) p = (p, snd (nativeSpoofProcessName env name))"
| "step env (HideProcessInfoCall pid) p = (p, snd (nativeHideProcessInfo env pid))"
| "step env IsBeingAnalyzedCall p = (p\<lparr>glob := snd (isBeingAnalyzedNative env (glob p))\<rparr>, [])"
| "step env (IsAppInForegroundCall pkg) p = (p, [])"
| "step env InitializeSecurityCall p =
     (let (g1, acts) = initializeNativeSecurity env (glob p) in (p\<lparr>glob := g1\<rparr>, acts))"
| "step env (SetSecurityLevelCall level) p =
     (p\<lparr>glob := setNativeSecurityLevel level (glob p)\<rparr>, [])"
| "step env IsRunningInEmulatorCall p = (p\<lparr>glob := snd (isRunningInEmulator env (glob p))\<rparr>, [])"
| "step env HasHookFrameworkCall p = (p, [])"
| "step env (MonitorPass i) p =
     (if i < length (monitors p) then
        (if gSecurityThreadRunning (glob p) then
           (let (g1, c1, acts) = monitor_iteration env (glob p) (monitors p ! i)
            in (\<lparr>glob = g1, monitors = (monitors p)[i := c1]\<rparr>, acts))
         else (p\<lparr>monitors := take i (monitors p) @ drop (Suc i) (monitors p)\<rparr>, []))
      else (p, []))"

fun run :: "(env \<times> event) list \<Rightarrow> process \<Rightarrow> process \<times> action list" where
  "run [] p = (p, [])"
| "run ((env, ev) # rest) p =
     (let (p1, acts1) = step env ev p;
          (p2, acts2) = run rest p1
      in (p2, acts1 @ acts2))"

subsection \<open>Reading the actions of a loop pass\<close>

fun spoofed_names :: "action list \<Rightarrow> string list" where
  "spoofed_names [] = []"
| "spoofed_names (PrctlSetName name # acts) = name # spoofed_names acts"
| "spoofed_names (a # acts) = spoofed_names acts"

subsection \<open>Concrete environments\<close>

text \<open>
  The head of a \<^verbatim>\<open>/proc/self/status\<close> file as Linux prints it, with the given digits in the
  \<^verbatim>\<open>TracerPid\<close> line; fields are separated by a tab (0x09), lines end in a line feed (0x0A).
\<close>

definition status_head :: string where
  "status_head =
     ''Name:'' @ [CHR 0x09] @ ''app_process'' @ [CHR 0x0A]
     @ ''Umask:'' @ [CHR 0x09] @ ''0077'' @ [CHR 0x0A]
     @ ''State:'' @ [CHR 0x09] @ ''S (sleeping)'' @ [CHR 0x0A]
     @ ''Tgid:'' @ [CHR 0x09] @ ''4242'' @ [CHR 0x0A]
     @ ''Ngid:'' @ [CHR 0x09] @ ''0'' @ [CHR 0x0A]
     @ ''Pid:'' @ [CHR 0x09] @ ''4242'' @ [CHR 0x0A]
     @ ''PPid:'' @ [CHR 0x09] @ ''611'' @ [CHR 0x0A]"

definition status_tail :: string where
  "status_tail = [CHR 0x0A] @ ''Uid:'' @ [CHR 0x09] @ ''10061'' @ [CHR 0x0A]"

definition status_text :: "string \<Rightarrow> string" where
  "status_text tracer = status_head @ ''TracerPid:'' @ [CHR 0x09] @ tracer @ status_tail"

text \<open>
  A device on which no probe finds anything: no tracer, no hooking library, no marker file,
  no property set, 40 microseconds for the timing loop.
\<close>

definition quiet_env :: env where
  "quiet_env =
     \<lparr>time_now = 1700000000,
      proc_self_status = Some (ReadBytes (status_text ''0'')),
      dlopen_ok = (\<lambda>name. False),
      proc_self_maps_dir = None,
      stat_ok = (\<lambda>path. False),
      system_property = (\<lambda>name. []),
      clock_start = \<lparr>tv_sec = 77, tv_nsec = 100\<rparr>,
      clock_end = \<lparr>tv_sec = 77, tv_nsec = 40100\<rparr>,
      prctl_set_dumpable = 0,
      prctl_set_name = (\<lambda>name. 0),
      open_cmdline = - 1,
      write_cmdline = - 1,
      pthread_create_result = 0\<rparr>"

text \<open>The same device under load: the timing loop takes 25 milliseconds.\<close>

definition slow_env :: env where
  "slow_env = quiet_env\<lparr>clock_end := \<lparr>tv_sec = 77, tv_nsec = 25000100\<rparr>\<rparr>"

text \<open>The same device with a debugger, process 4711, attached.\<close>

definition traced_env :: env where
  "traced_env = quiet_env\<lparr>proc_self_status := Some (ReadBytes (status_text ''4711''))\<rparr>"

text \<open>An emulator: \<^verbatim>\<open>ro.hardware\<close> is \<^verbatim>\<open>ranchu\<close>.\<close>

definition emulator_env :: env where
  "emulator_env =
     quiet_env\<lparr>system_property := (\<lambda>name. if name = ''ro.hardware'' then ''ranchu'' else [])\<rparr>"

text \<open>A device on which \<^verbatim>\<open>/proc/self/status\<close> cannot be opened.\<close>

definition unreadable_env :: env where
  "unreadable_env = quiet_env\<lparr>proc_self_status := None\<rparr>"

text \<open>A device on which reading \<^verbatim>\<open>/proc/self/status\<close> fails, or yields nothing.\<close>

definition read_error_env :: env where
  "read_error_env = quiet_env\<lparr>proc_self_status := Some ReadError\<rparr>"

definition empty_read_env :: env where
  "empty_read_env = quiet_env\<lparr>proc_self_status := Some (ReadBytes [])\<rparr>"

text \<open>A status file without a \<^verbatim>\<open>TracerPid\<close> line, and one whose line holds no number.\<close>

definition no_field_env :: env where
  "no_field_env = quiet_env\<lparr>proc_self_status := Some (ReadBytes status_head)\<rparr>"

definition bad_field_env :: env where
  "bad_field_env = quiet_env\<lparr>proc_self_status := Some (ReadBytes (status_text ''none''))\<rparr>"

text \<open>The globals once the library is loaded, at a given level.\<close>

definition loaded_globals :: "int \<Rightarrow> globals" where
  "loaded_globals level =
     \<lparr>gJavaVM = 1, gSecurityThreadRunning = True, gSecurityLevel = level,
      gLastEmulatorCheck = 0, gIsEmulator = False\<rparr>"

text \<open>The globals with a cached emulator result \<open>v\<close> taken at time \<open>t\<close>.\<close>

definition cached_globals :: "int \<Rightarrow> bool \<Rightarrow> globals" where
  "cached_globals t v = (loaded_globals 1)\<lparr>gLastEmulatorCheck := t, gIsEmulator := v\<rparr>"

subsection \<open>The invariant of the monitor threads\<close>

text \<open>At most one monitor thread exists, and none while the running flag is clear.\<close>

definition one_monitor :: "process \<Rightarrow> bool" where
  "one_monitor p \<longleftrightarrow>
     length (monitors p) \<le> 1 \<and> (gSecurityThreadRunning (glob p) \<or> monitors p = [])"

section \<open>Basic facts\<close>

subsection \<open>Runs\<close>

lemma fst_run_Cons: "fst (run ((env, ev) # rest) p) = fst (run rest (fst (step env ev p)))"
  by (simp add: split_def Let_def)

lemma snd_run_Cons:
  "snd (run ((env, ev) # rest) p) = snd (step env ev p) @ snd (run rest (fst (step env ev p)))"
  by (simp add: split_def Let_def)

subsection \<open>What each function leaves alone\<close>

lemma detectEmulator_level: "gSecurityLevel (fst (snd (detectEmulator env g))) = gSecurityLevel g"
  by (simp add: detectEmulator_def Let_def split_def)

lemma detectEmulator_running:
  "gSecurityThreadRunning (fst (snd (detectEmulator env g))) = gSecurityThreadRunning g"
  by (simp add: detectEmulator_def Let_def split_def)

lemma setSecurityLevel_running:
  "gSecurityThreadRunning (setSecurityLevel l g) = gSecurityThreadRunning g"
  by (simp add: setSecurityLevel_def)

lemma iteration_signals_level:
  "gSecurityLevel (snd (iteration_signals env g c)) = gSecurityLevel g"
  by (simp add: iteration_signals_def Let_def split_def detectEmulator_level)

lemma monitor_iteration_level:
  "gSecurityLevel (fst (monitor_iteration env g c)) = gSecurityLevel g"
  by (simp add: monitor_iteration_def Let_def split_def iteration_signals_level)

lemma monitor_iteration_running:
  "gSecurityThreadRunning (fst (monitor_iteration env g c)) = gSecurityThreadRunning g"
  by (simp add: monitor_iteration_def iteration_signals_def Let_def split_def
      detectEmulator_running)

subsection \<open>The level stays in range\<close>

lemma step_level:
  "gSecurityLevel (glob p) \<in> {1, 2, 3} \<Longrightarrow>
   gSecurityLevel (glob (fst (step env ev p))) \<in> {1, 2, 3}"
  apply (cases ev)
           apply (simp_all add: Let_def split_def JNI_OnLoad_def isBeingAnalyzedNative_def
      detectEmulator_level initializeNativeSecurity_def setNativeSecurityLevel_def
      isRunningInEmulator_def monitor_iteration_level)
   apply (auto simp: setSecurityLevel_def detectEmulator_level)
  done

lemma run_level:
  "gSecurityLevel (glob p) \<in> {1, 2, 3} \<Longrightarrow>
   gSecurityLevel (glob (fst (run evs p))) \<in> {1, 2, 3}"
proof (induction evs arbitrary: p)
  case Nil
  then show ?case by simp
next
  case (Cons a evs)
  obtain env ev where a: "a = (env, ev)" by (cases a)
  from Cons.prems have "gSecurityLevel (glob (fst (step env ev p))) \<in> {1, 2, 3}"
    by (rule step_level)
  from Cons.IH[OF this] show ?case unfolding a fst_run_Cons .
qed

subsection \<open>Thread creation\<close>

lemma step_running:
  "gSecurityThreadRunning (glob p) \<Longrightarrow> gSecurityThreadRunning (glob (fst (step env ev p)))"
  by (cases ev)
     (simp_all add: Let_def split_def JNI_OnLoad_def isBeingAnalyzedNative_def
       detectEmulator_running initializeNativeSecurity_def setNativeSecurityLevel_def
       setSecurityLevel_running isRunningInEmulator_def monitor_iteration_running)

lemma step_one_monitor: "one_monitor p \<Longrightarrow> one_monitor (fst (step env ev p))"
  by (cases ev)
     (auto simp: one_monitor_def Let_def split_def JNI_OnLoad_def isBeingAnalyzedNative_def
       detectEmulator_running initializeNativeSecurity_def setNativeSecurityLevel_def
       setSecurityLevel_running isRunningInEmulator_def monitor_iteration_running)

lemma run_one_monitor: "one_monitor p \<Longrightarrow> one_monitor (fst (run evs p))"
proof (induction evs arbitrary: p)
  case Nil
  then show ?case by simp
next
  case (Cons a evs)
  obtain env ev where a: "a = (env, ev)" by (cases a)
  from Cons.prems have "one_monitor (fst (step env ev p))" by (rule step_one_monitor)
  from Cons.IH[OF this] show ?case unfolding a fst_run_Cons .
qed

lemma monitor_iteration_no_create:
  "PthreadCreate \<notin> set (snd (snd (monitor_iteration env g c)))"
  by (auto simp: monitor_iteration_def Let_def split_def apply_protections_def
      obfuscateMemory_def blockPtraceAttach_def spoofProcessName_def split: option.splits)

lemma step_creates:
  "count_list (snd (step env ev p)) PthreadCreate =
     (case ev of Load vm \<Rightarrow> if gSecurityThreadRunning (glob p) then 0 else 1 | _ \<Rightarrow> 0)"
  using monitor_iteration_no_create[of env "glob p"]
  by (cases ev)
     (auto simp: Let_def split_def JNI_OnLoad_def nativeSpoofProcessName_def
       spoofProcessName_def nativeHideProcessInfo_def hideProcessInfo_def
       initializeNativeSecurity_def blockPtraceAttach_def count_list_0_iff)

lemma step_Load_running: "gSecurityThreadRunning (glob (fst (step env (Load vm) p)))"
  by (simp add: Let_def split_def JNI_OnLoad_def)

lemma run_creates_running:
  "gSecurityThreadRunning (glob p) \<Longrightarrow> count_list (snd (run evs p)) PthreadCreate = 0"
proof (induction evs arbitrary: p)
  case Nil
  then show ?case by simp
next
  case (Cons a evs)
  obtain env ev where a: "a = (env, ev)" by (cases a)
  from Cons.prems have r: "gSecurityThreadRunning (glob (fst (step env ev p)))"
    by (rule step_running)
  have "count_list (snd (step env ev p)) PthreadCreate = 0"
    using Cons.prems by (simp add: step_creates split: event.splits)
  with Cons.IH[OF r] show ?case unfolding a snd_run_Cons by simp
qed

lemma run_creates: "count_list (snd (run evs p)) PthreadCreate \<le> 1"
proof (induction evs arbitrary: p)
  case Nil
  then show ?case by simp
next
  case (Cons a evs)
  obtain env ev where a: "a = (env, ev)" by (cases a)
  show ?case
  proof (cases "count_list (snd (step env ev p)) PthreadCreate = 0")
    case True
    with Cons.IH[of "fst (step env ev p)"] show ?thesis unfolding a snd_run_Cons by simp
  next
    case False
    from False
    have nz: "(case ev of Load vm \<Rightarrow> if gSecurityThreadRunning (glob p) then 0 else 1 | _ \<Rightarrow> 0)
                \<noteq> (0::nat)"
      unfolding step_creates .
    then have "\<exists>vm. ev = Load vm"
      by (cases ev) simp_all
    then obtain vm where ev: "ev = Load vm" ..
    from nz have one: "count_list (snd (step env ev p)) PthreadCreate = 1"
      unfolding step_creates ev by (simp split: if_splits)
    have "gSecurityThreadRunning (glob (fst (step env ev p)))"
      unfolding ev by (rule step_Load_running)
    then have "count_list (snd (run evs (fst (step env ev p)))) PthreadCreate = 0"
      by (rule run_creates_running)
    with one show ?thesis unfolding a snd_run_Cons by simp
  qed
qed

subsection \<open>The emulator probe\<close>

lemma scan_props_calls: "props \<noteq> [] \<Longrightarrow> snd (scan_emulator_props env props) \<noteq> []"
  by (cases props) (simp_all add: Let_def split_def)

lemma emulator_checks_calls: "snd (emulator_checks env) \<noteq> []"
  using scan_props_calls[of emulator_props env]
  by (simp add: emulator_checks_def Let_def split_def emulator_props_def)

lemma scan_props_result:
  "fst (scan_emulator_props env props) \<longleftrightarrow>
     (\<exists>p\<in>set props. \<exists>v\<in>set emulator_values. strstr (system_property env p) v \<noteq> None)"
  by (induction props) (auto simp: Let_def split_def list_ex_iff)

lemma scan_files_result:
  "fst (scan_emulator_files env files) \<longleftrightarrow> (\<exists>f\<in>set files. stat_ok env f)"
  by (induction files) (auto simp: Let_def split_def)

lemma emulator_checks_result:
  "fst (emulator_checks env) \<longleftrightarrow>
     (\<exists>p\<in>set emulator_props. \<exists>v\<in>set emulator_values.
         strstr (system_property env p) v \<noteq> None)
     \<or> (\<exists>f\<in>set emulator_files. stat_ok env f)"
  using scan_props_result[of env emulator_props] scan_files_result[of env emulator_files]
  by (auto simp: emulator_checks_def Let_def split_def)

subsection \<open>The remainder of C\<close>

lemma smod_20_imp_4: "(c::int) smod 20 = 0 \<Longrightarrow> c smod 4 = 0"
proof -
  assume a: "c smod 20 = 0"
  have "\<bar>c\<bar> mod 20 = 0" using a by (auto simp: smod_int_alt_def sgn_if split: if_splits)
  then have "\<bar>c\<bar> mod 4 = 0" by presburger
  then show ?thesis by (simp add: smod_int_alt_def)
qed

lemma smod_numeral_simps:
  "(0::int) smod 20 = 0" "(0::int) smod 10 = 0" "(0::int) smod 5 = 0" "(0::int) smod 4 = 0"
  "(5::int) smod 20 = 5" "(5::int) smod 10 = 5" "(5::int) smod 5 = 0"
  "(20::int) smod 20 = 0" "(20::int) smod 10 = 0" "(20::int) smod 5 = 0" "(20::int) smod 4 = 0"
  "(40::int) smod 20 = 0" "(40::int) smod 10 = 0" "(40::int) smod 5 = 0" "(40::int) smod 4 = 0"
  by (simp_all add: smod_int_alt_def)

subsection \<open>Renaming and noise in a loop pass\<close>

lemma spoofed_names_append: "spoofed_names (xs @ ys) = spoofed_names xs @ spoofed_names ys"
  by (induction xs rule: spoofed_names.induct) simp_all

lemma in_spoofed_names: "name \<in> set (spoofed_names acts) \<longleftrightarrow> PrctlSetName name \<in> set acts"
  by (induction acts rule: spoofed_names.induct) auto

lemma level_branch_no_spoof:
  "spoofed_names (if gSecurityLevel g \<ge> 3 then obfuscateMemory @ snd (blockPtraceAttach env)
      else if gSecurityLevel g \<ge> 2 then snd (blockPtraceAttach env) else []) = []"
  by (simp add: obfuscateMemory_def blockPtraceAttach_def)

lemma spoof_branch:
  "c smod 20 = 0 \<Longrightarrow>
   (let idx = c smod 4 in
      case array_read system_procs idx of
        None \<Rightarrow> []
      | Some name \<Rightarrow> snd (spoofProcessName env name)) = [PrctlSetName ''system_server'']"
  using smod_20_imp_4[of c]
  by (simp add: array_read_def system_procs_def spoofProcessName_def)

lemma apply_protections_spoofed:
  "spoofed_names (apply_protections env g c) =
     (if c smod 20 = 0 then [''system_server''] else [])"
proof (cases "c smod 20 = 0")
  case True
  show ?thesis
    unfolding apply_protections_def spoofed_names_append level_branch_no_spoof
    using True spoof_branch[OF True, of env] by simp
next
  case False
  then show ?thesis
    unfolding apply_protections_def spoofed_names_append level_branch_no_spoof
    by simp
qed

lemma monitor_iteration_spoofed:
  "spoofed_names (snd (snd (monitor_iteration env g c))) =
     (if any_threat (fst (iteration_signals env g c)) \<and> c smod 20 = 0
      then [''system_server''] else [])"
  by (simp add: monitor_iteration_def Let_def split_def spoofed_names_append
      apply_protections_spoofed)

lemma loop_spoofed:
  "set (spoofed_names (snd (snd (securityMonitorThread envs g c)))) \<subseteq> {''system_server''}"
proof (induction envs arbitrary: g c)
  case Nil
  then show ?case by simp
next
  case (Cons env envs)
  show ?case
  proof (cases "gSecurityThreadRunning g")
    case True
    have "set (spoofed_names (snd (snd (monitor_iteration env g c)))) \<subseteq> {''system_server''}"
      by (auto simp: monitor_iteration_spoofed)
    with Cons.IH[of "fst (monitor_iteration env g c)" "fst (snd (monitor_iteration env g c))"]
      True
    show ?thesis
      by (simp add: split_def Let_def spoofed_names_append)
  next
    case False
    then show ?thesis by simp
  qed
qed

lemma apply_protections_noise:
  "LeakNoiseBuffer n \<in> set (apply_protections env g c) \<longleftrightarrow>
     n = 1024 \<and> gSecurityLevel g \<ge> 3"
  by (auto simp: apply_protections_def obfuscateMemory_def blockPtraceAttach_def
      spoofProcessName_def Let_def split: option.splits)

lemma monitor_iteration_noise:
  "LeakNoiseBuffer n \<in> set (snd (snd (monitor_iteration env g c))) \<longleftrightarrow>
     n = 1024 \<and> any_threat (fst (iteration_signals env g c)) \<and> gSecurityLevel g \<ge> 3"
  by (auto simp: monitor_iteration_def Let_def split_def apply_protections_noise
      iteration_signals_def detectEmulator_def)

subsection \<open>Searching and scanning a status file\<close>

lemma strstr_self: "strstr (n @ rest) n = Some (n @ rest)"
proof (cases "n @ rest")
  case Nil
  then show ?thesis by simp
next
  case (Cons a list)
  have "prefix n (n @ rest)" by simp
  then have "prefix n (a # list)" unfolding Cons .
  then show ?thesis unfolding Cons by simp
qed

lemma prefix_short:
  assumes "prefix xs (ys @ zs)" and "length xs \<le> length ys"
  shows "prefix xs ys"
proof -
  from assms(1) obtain us where "ys @ zs = xs @ us" by (auto simp: prefix_def)
  then have "take (length xs) (ys @ zs) = xs" by simp
  with assms(2) have "take (length xs) ys = xs" by simp
  then have "ys = xs @ drop (length xs) ys" by (metis append_take_drop_id)
  then show ?thesis by (rule prefixI)
qed

text \<open>
  When the first occurrence of the needle in \<open>pre @ n\<close> is the final one, the search in
  a longer text stops there too.
\<close>

lemma strstr_first:
  "strstr (pre @ n) n = Some n \<Longrightarrow> strstr (pre @ n @ rest) n = Some (n @ rest)"
proof (induction pre)
  case Nil
  show ?case using strstr_self[of n rest] by simp
next
  case (Cons a pre)
  have np: "\<not> prefix n (a # pre @ n)"
  proof
    assume "prefix n (a # pre @ n)"
    with Cons.prems have "a # pre @ n = n" by simp
    then have "length (a # pre @ n) = length n" by simp
    then show False by simp
  qed
  with Cons.prems have "strstr (pre @ n) n = Some n" by simp
  then have ih: "strstr (pre @ n @ rest) n = Some (n @ rest)" by (rule Cons.IH)
  have "\<not> prefix n (a # pre @ n @ rest)"
  proof
    assume "prefix n (a # pre @ n @ rest)"
    then have "prefix n ((a # pre @ n) @ rest)" by simp
    then have "prefix n (a # pre @ n)" by (rule prefix_short) simp
    with np show False ..
  qed
  with ih show ?case by simp
qed

lemma c_str_append: "CHR 0x00 \<notin> set xs \<Longrightarrow> c_str (xs @ ys) = xs @ c_str ys"
  by (induction xs) (auto simp: c_str_def)

lemma isdigit_not_isspace: "isdigit c \<Longrightarrow> \<not> isspace c"
  by (auto simp: isdigit_def isspace_def)

lemma isdigit_not_sign: "isdigit c \<Longrightarrow> c \<noteq> CHR ''-'' \<and> c \<noteq> CHR ''+''"
  by (auto simp: isdigit_def)

lemma isdigit_not_nul: "isdigit c \<Longrightarrow> c \<noteq> CHR 0x00"
  by (auto simp: isdigit_def)

lemma isspace_not_nul: "isspace c \<Longrightarrow> c \<noteq> CHR 0x00"
  by (auto simp: isspace_def)

lemma sscanf_d_digits:
  assumes ws: "\<forall>c\<in>set ws. isspace c"
    and ds: "ds \<noteq> []" "\<forall>c\<in>set ds. isdigit c"
    and rest: "rest = [] \<or> \<not> isdigit (hd rest)"
  shows "sscanf_d (ws @ ds @ rest) = Some (decimal ds)"
proof -
  obtain d ds' where d: "ds = d # ds'" using ds(1) by (cases ds) auto
  have dd: "isdigit d" using ds(2) d by simp
  have "dropWhile isspace (ws @ ds @ rest) = dropWhile isspace (ds @ rest)"
    using ws by (simp add: dropWhile_append2)
  also have "\<dots> = ds @ rest"
    using isdigit_not_isspace[OF dd] by (simp add: d)
  finally have s1: "dropWhile isspace (ws @ ds @ rest) = d # (ds' @ rest)" by (simp add: d)
  have "takeWhile isdigit (ds @ rest) = ds"
    using ds(2) rest by (cases rest) (simp_all add: takeWhile_append2)
  then have tw: "takeWhile isdigit (d # (ds' @ rest)) = ds" by (simp add: d)
  have sg: "d \<noteq> CHR ''-''" "d \<noteq> CHR ''+''"
    using isdigit_not_sign[OF dd] by simp_all
  show ?thesis
    unfolding sscanf_d_def Let_def s1 using sg ds(1)
    by (simp only: list.case tw if_False simp_thms)
qed

lemma c_str_rest:
  "rest = [] \<or> \<not> isdigit (hd rest) \<Longrightarrow> c_str rest = [] \<or> \<not> isdigit (hd (c_str rest))"
  by (cases rest) (auto simp: c_str_def)

lemma isBeingTraced_field:
  assumes st: "proc_self_status env = Some (ReadBytes bs)"
    and buf: "take 511 bs = pre @ tracer_needle @ ws @ ds @ rest"
    and first: "strstr (pre @ tracer_needle) tracer_needle = Some tracer_needle"
    and nul: "CHR 0x00 \<notin> set pre"
    and ws: "\<forall>c\<in>set ws. isspace c"
    and ds: "ds \<noteq> []" "\<forall>c\<in>set ds. isdigit c"
    and rest: "rest = [] \<or> \<not> isdigit (hd rest)"
  shows "isBeingTraced env = (decimal ds \<noteq> 0)"
proof -
  have nn: "CHR 0x00 \<notin> set (pre @ tracer_needle @ ws @ ds)"
    using nul ws ds(2) isdigit_not_nul isspace_not_nul
    by (auto simp: tracer_needle_def)
  have "c_str (take 511 bs) = c_str ((pre @ tracer_needle @ ws @ ds) @ rest)"
    by (simp add: buf)
  also have "\<dots> = (pre @ tracer_needle @ ws @ ds) @ c_str rest"
    using nn by (rule c_str_append)
  finally have cs: "c_str (take 511 bs) = pre @ tracer_needle @ (ws @ ds @ c_str rest)"
    by simp
  have found: "strstr (c_str (take 511 bs)) tracer_needle
                 = Some (tracer_needle @ (ws @ ds @ c_str rest))"
    unfolding cs using first by (rule strstr_first)
  have scan: "sscanf_d (ws @ ds @ c_str rest) = Some (decimal ds)"
    using ws ds c_str_rest[OF rest] by (rule sscanf_d_digits)
  have ne: "take 511 bs \<noteq> []"
    using ds(1) by (simp add: buf)
  show ?thesis
    using ne by (simp add: isBeingTraced_def st found scan Let_def)
qed

subsection \<open>The probes on the concrete environments\<close>

lemmas parse_defs = isBeingTraced_def status_text_def status_head_def status_tail_def
  c_str_def tracer_needle_def sscanf_d_def isspace_def isdigit_def decimal_def digit_value_def

lemmas hook_defs = isHookingFrameworkPresent_def detectMagiskHooks_def magisk_paths_def

lemmas emulator_defs = emulator_checks_def emulator_props_def emulator_values_def
  emulator_files_def

lemma quiet_env_traced: "isBeingTraced quiet_env = False"
  by (simp add: parse_defs quiet_env_def)

lemma quiet_env_hooked: "isHookingFrameworkPresent quiet_env = False"
  by (simp add: hook_defs quiet_env_def)

lemma quiet_env_virtual: "detectVirtualEnvironment quiet_env = False"
  by (simp add: detectVirtualEnvironment_def container_files_def quiet_env_def)

lemma quiet_env_timing: "detectTimingAnomaly quiet_env = False"
  by (simp add: detectTimingAnomaly_def quiet_env_def)

lemma quiet_env_emulator: "fst (emulator_checks quiet_env) = False"
  by (simp add: emulator_defs quiet_env_def)

lemmas quiet_env_probes = quiet_env_traced quiet_env_hooked quiet_env_virtual quiet_env_timing
  quiet_env_emulator

lemma slow_env_traced: "isBeingTraced slow_env = False"
  by (simp add: parse_defs slow_env_def quiet_env_def)

lemma slow_env_hooked: "isHookingFrameworkPresent slow_env = False"
  by (simp add: hook_defs slow_env_def quiet_env_def)

lemma slow_env_virtual: "detectVirtualEnvironment slow_env = False"
  by (simp add: detectVirtualEnvironment_def container_files_def slow_env_def quiet_env_def)

lemma slow_env_timing: "detectTimingAnomaly slow_env = True"
  by (simp add: detectTimingAnomaly_def slow_env_def quiet_env_def)

lemma slow_env_emulator: "fst (emulator_checks slow_env) = False"
  by (simp add: emulator_defs slow_env_def quiet_env_def)

lemmas slow_env_probes = slow_env_traced slow_env_hooked slow_env_virtual slow_env_timing
  slow_env_emulator

lemma traced_env_traced: "isBeingTraced traced_env = True"
  by (simp add: parse_defs traced_env_def quiet_env_def)

lemma traced_env_hooked: "isHookingFrameworkPresent traced_env = False"
  by (simp add: hook_defs traced_env_def quiet_env_def)

lemma traced_env_virtual: "detectVirtualEnvironment traced_env = False"
  by (simp add: detectVirtualEnvironment_def container_files_def traced_env_def quiet_env_def)

lemma traced_env_timing: "detectTimingAnomaly traced_env = False"
  by (simp add: detectTimingAnomaly_def traced_env_def quiet_env_def)

lemma traced_env_emulator: "fst (emulator_checks traced_env) = False"
  by (simp add: emulator_defs traced_env_def quiet_env_def)

lemmas traced_env_probes = traced_env_traced traced_env_hooked traced_env_virtual
  traced_env_timing traced_env_emulator

lemma emulator_env_traced: "isBeingTraced emulator_env = False"
  by (simp add: parse_defs emulator_env_def quiet_env_def)

lemma emulator_env_hooked: "isHookingFrameworkPresent emulator_env = False"
  by (simp add: hook_defs emulator_env_def quiet_env_def)

lemma emulator_env_timing: "detectTimingAnomaly emulator_env = False"
  by (simp add: detectTimingAnomaly_def emulator_env_def quiet_env_def)

lemma emulator_env_emulator: "emulator_checks emulator_env = (True, [PropertyGet ''ro.hardware''])"
  by (simp add: emulator_defs emulator_env_def quiet_env_def)

lemmas emulator_env_probes = emulator_env_traced emulator_env_hooked emulator_env_timing
  emulator_env_emulator

lemma env_times:
  "time_now quiet_env = 1700000000" "time_now slow_env = 1700000000"
  "time_now traced_env = 1700000000" "time_now emulator_env = 1700000000"
  by (simp_all add: quiet_env_def slow_env_def traced_env_def emulator_env_def)

lemma to_jboolean_simps: "to_jboolean True = JNI_TRUE" "to_jboolean False = JNI_FALSE"
  "JNI_TRUE \<noteq> JNI_FALSE"
  by (simp_all add: to_jboolean_def JNI_TRUE_def JNI_FALSE_def)

subsection \<open>The analysis query and the loaded globals\<close>

lemma isBeingAnalyzedNative_result:
  "fst (isBeingAnalyzedNative env g) =
     (if gSecurityLevel g \<ge> 3
      then to_jboolean (isBeingTraced env \<or> isHookingFrameworkPresent env
                        \<or> detectTimingAnomaly env \<or> fst (detectEmulator env g))
      else if gSecurityLevel g \<ge> 2
      then to_jboolean (isBeingTraced env \<or> isHookingFrameworkPresent env
                        \<or> detectTimingAnomaly env)
      else to_jboolean (isBeingTraced env \<or> isHookingFrameworkPresent env))"
  by (simp add: isBeingAnalyzedNative_def detectEmulator_level Let_def split_def)

lemma detectEmulator_fresh:
  "gLastEmulatorCheck g = 0 \<Longrightarrow> fst (detectEmulator env g) = fst (emulator_checks env)"
  by (simp add: detectEmulator_def Let_def split_def)

lemma loaded_globals_simps:
  "gSecurityLevel (loaded_globals l) = l" "gLastEmulatorCheck (loaded_globals l) = 0"
  "gSecurityThreadRunning (loaded_globals l) = True" "gIsEmulator (loaded_globals l) = False"
  by (simp_all add: loaded_globals_def)

subsection \<open>The signals of a loop pass without a cached emulator result\<close>

lemma iteration_signals_fresh:
  "gLastEmulatorCheck g = 0 \<Longrightarrow>
   fst (iteration_signals env g c) =
     \<lparr>sig_traced = isBeingTraced env, sig_hooked = isHookingFrameworkPresent env,
      sig_in_emulator = (c smod 10 = 0 \<and> fst (emulator_checks env)),
      sig_in_virtual_env = (c smod 10 = 0 \<and> detectVirtualEnvironment env),
      sig_timing_anomaly = (c smod 5 = 0 \<and> detectTimingAnomaly env)\<rparr>"
  by (simp add: iteration_signals_def detectEmulator_def Let_def split_def)

subsection \<open>The concrete status files\<close>

lemma status_head_first:
  "strstr (status_head @ tracer_needle) tracer_needle = Some tracer_needle"
  by (simp add: status_head_def tracer_needle_def)

lemma status_head_no_needle: "strstr (c_str (take 511 status_head)) tracer_needle = None"
  by (simp add: status_head_def tracer_needle_def c_str_def)

lemma status_bad_line:
  "strstr (c_str (take 511 (status_text ''none''))) tracer_needle
     = Some (tracer_needle @ [CHR 0x09] @ ''none'' @ status_tail)"
  by (simp add: status_text_def status_head_def status_tail_def tracer_needle_def c_str_def)

lemma status_bad_scan:
  "sscanf_d (drop (length tracer_needle) (tracer_needle @ [CHR 0x09] @ ''none'' @ status_tail))
     = None"
  by (simp add: status_tail_def sscanf_d_def isspace_def isdigit_def)

lemma status_text_split:
  "take 511 (status_text ds) = status_head @ tracer_needle @ [CHR 0x09] @ ds @ status_tail"
  if "length ds \<le> 10"
  using that by (simp add: status_text_def status_head_def status_tail_def tracer_needle_def)

lemma status_parts:
  "CHR 0x00 \<notin> set status_head" "\<forall>c\<in>set [CHR 0x09]. isspace c"
  "status_tail = [] \<or> \<not> isdigit (hd status_tail)"
  by (simp_all add: status_head_def status_tail_def isspace_def isdigit_def)

lemma digits_4711: "\<forall>c\<in>set ''4711''. isdigit c" "decimal ''4711'' = 4711"
  by (simp_all add: isdigit_def decimal_def digit_value_def)

lemma digits_0: "\<forall>c\<in>set ''0''. isdigit c" "decimal ''0'' = 0"
  by (simp_all add: isdigit_def decimal_def digit_value_def)

section \<open>The claims\<close>

subsection \<open>C1: the analysis query by level\<close>

text \<open>
  Claim C1. For every environment and every globals, \<^verbatim>\<open>isBeingAnalyzedNative\<close> returns, at
  level 3, the disjunction of the four signals (traced, hooked, timing anomaly, emulator);
  at level 2, the disjunction of traced, hooked and timing anomaly; at level 1, the
  disjunction of traced and hooked. At level 1 two calls that agree on the traced and the
  hooked signal return the same value, whatever the timing and the emulator signals are.
\<close>

theorem isBeingAnalyzed_by_level:
  "(gSecurityLevel g = 3 \<longrightarrow>
      fst (isBeingAnalyzedNative env g) =
        to_jboolean (isBeingTraced env \<or> isHookingFrameworkPresent env
                     \<or> detectTimingAnomaly env \<or> fst (detectEmulator env g)))
   \<and> (gSecurityLevel g = 2 \<longrightarrow>
      fst (isBeingAnalyzedNative env g) =
        to_jboolean (isBeingTraced env \<or> isHookingFrameworkPresent env
                     \<or> detectTimingAnomaly env))
   \<and> (gSecurityLevel g = 1 \<longrightarrow>
      fst (isBeingAnalyzedNative env g) =
        to_jboolean (isBeingTraced env \<or> isHookingFrameworkPresent env))
   \<and> (gSecurityLevel g = 1 \<and> gSecurityLevel g' = 1
        \<and> isBeingTraced env' = isBeingTraced env
        \<and> isHookingFrameworkPresent env' = isHookingFrameworkPresent env \<longrightarrow>
      fst (isBeingAnalyzedNative env' g') = fst (isBeingAnalyzedNative env g))"
proof (intro conjI impI)
  assume "gSecurityLevel g = 3"
  then show "fst (isBeingAnalyzedNative env g) =
        to_jboolean (isBeingTraced env \<or> isHookingFrameworkPresent env
                     \<or> detectTimingAnomaly env \<or> fst (detectEmulator env g))"
    by (simp add: isBeingAnalyzedNative_result)
next
  assume "gSecurityLevel g = 2"
  then show "fst (isBeingAnalyzedNative env g) =
        to_jboolean (isBeingTraced env \<or> isHookingFrameworkPresent env
                     \<or> detectTimingAnomaly env)"
    by (simp add: isBeingAnalyzedNative_result)
next
  assume "gSecurityLevel g = 1"
  then show "fst (isBeingAnalyzedNative env g) =
        to_jboolean (isBeingTraced env \<or> isHookingFrameworkPresent env)"
    by (simp add: isBeingAnalyzedNative_result)
next
  assume a: "gSecurityLevel g = 1 \<and> gSecurityLevel g' = 1
        \<and> isBeingTraced env' = isBeingTraced env
        \<and> isHookingFrameworkPresent env' = isHookingFrameworkPresent env"
  have "fst (isBeingAnalyzedNative env' g') =
          to_jboolean (isBeingTraced env' \<or> isHookingFrameworkPresent env')"
    using a by (simp add: isBeingAnalyzedNative_result)
  moreover have "fst (isBeingAnalyzedNative env g) =
          to_jboolean (isBeingTraced env \<or> isHookingFrameworkPresent env)"
    using a by (simp add: isBeingAnalyzedNative_result)
  ultimately show "fst (isBeingAnalyzedNative env' g') = fst (isBeingAnalyzedNative env g)"
    using a by simp
qed

text \<open>
  On an emulator the query is true at level 3 and false at levels 2 and 1; on a slow
  device it is true at level 2 and false at level 1; with a tracer it is true at level 1.
\<close>

theorem isBeingAnalyzed_by_level_witness:
  "gSecurityLevel (loaded_globals 3) = 3
   \<and> fst (isBeingAnalyzedNative emulator_env (loaded_globals 3)) = JNI_TRUE
   \<and> gSecurityLevel (loaded_globals 2) = 2
   \<and> fst (isBeingAnalyzedNative slow_env (loaded_globals 2)) = JNI_TRUE
   \<and> fst (isBeingAnalyzedNative emulator_env (loaded_globals 2)) = JNI_FALSE
   \<and> gSecurityLevel (loaded_globals 1) = 1
   \<and> fst (isBeingAnalyzedNative slow_env (loaded_globals 1)) = JNI_FALSE
   \<and> fst (isBeingAnalyzedNative emulator_env (loaded_globals 1))
       = fst (isBeingAnalyzedNative slow_env (loaded_globals 1))
   \<and> fst (isBeingAnalyzedNative traced_env (loaded_globals 1)) = JNI_TRUE"
proof -
  have l3: "gSecurityLevel (loaded_globals 3) = 3"
    and l2: "gSecurityLevel (loaded_globals 2) = 2"
    and l1: "gSecurityLevel (loaded_globals 1) = 1"
    by (simp_all add: loaded_globals_simps)
  have e3: "fst (detectEmulator emulator_env (loaded_globals 3)) = True"
    by (simp add: detectEmulator_fresh loaded_globals_simps emulator_env_emulator)
  have a: "fst (isBeingAnalyzedNative emulator_env (loaded_globals 3)) = JNI_TRUE"
    using isBeingAnalyzed_by_level[of "loaded_globals 3" emulator_env] l3 e3
    by (simp add: to_jboolean_simps)
  have b: "fst (isBeingAnalyzedNative slow_env (loaded_globals 2)) = JNI_TRUE"
    using isBeingAnalyzed_by_level[of "loaded_globals 2" slow_env] l2
    by (simp add: slow_env_probes to_jboolean_simps)
  have c: "fst (isBeingAnalyzedNative emulator_env (loaded_globals 2)) = JNI_FALSE"
    using isBeingAnalyzed_by_level[of "loaded_globals 2" emulator_env] l2
    by (simp add: emulator_env_traced emulator_env_hooked emulator_env_timing to_jboolean_simps)
  have d: "fst (isBeingAnalyzedNative slow_env (loaded_globals 1)) = JNI_FALSE"
    using isBeingAnalyzed_by_level[of "loaded_globals 1" slow_env] l1
    by (simp add: slow_env_traced slow_env_hooked to_jboolean_simps)
  have e: "fst (isBeingAnalyzedNative emulator_env (loaded_globals 1))
       = fst (isBeingAnalyzedNative slow_env (loaded_globals 1))"
    using isBeingAnalyzed_by_level[of "loaded_globals 1" slow_env "loaded_globals 1" emulator_env]
      l1
    by (simp add: slow_env_traced slow_env_hooked emulator_env_traced emulator_env_hooked)
  have f: "fst (isBeingAnalyzedNative traced_env (loaded_globals 1)) = JNI_TRUE"
    using isBeingAnalyzed_by_level[of "loaded_globals 1" traced_env] l1
    by (simp add: traced_env_traced to_jboolean_simps)
  from l3 l2 l1 a b c d e f show ?thesis by blast
qed

subsection \<open>C2: levels outside 1..3 are ignored\<close>

text \<open>
  Claim C2. For every integer \<open>l\<close> other than 1, 2 and 3, \<^verbatim>\<open>setSecurityLevel\<close> and the
  entry point \<^verbatim>\<open>setNativeSecurityLevel\<close> return the globals unchanged; the functions
  return nothing else, so no error is surfaced. After any sequence of entry-point calls
  and loop passes from the initial process, the level is 1, 2 or 3.
\<close>

theorem setSecurityLevel_rejects_out_of_range:
  "(l \<notin> {1, 2, 3} \<longrightarrow> setSecurityLevel l g = g \<and> setNativeSecurityLevel l g = g)
   \<and> gSecurityLevel (glob (fst (run evs initial_process))) \<in> {1, 2, 3}"
  using run_level[of initial_process evs]
  by (auto simp: setSecurityLevel_def setNativeSecurityLevel_def initial_process_def
      initial_globals_def)

text \<open>
  Levels 7 and 0 are ignored; after loading, setting level 2, and asking for levels -4
  and 4, the level is 2.
\<close>

theorem setSecurityLevel_rejects_out_of_range_witness:
  "(7::int) \<notin> {1, 2, 3}
   \<and> setNativeSecurityLevel 7 (loaded_globals 2) = loaded_globals 2
   \<and> (0::int) \<notin> {1, 2, 3}
   \<and> setSecurityLevel 0 (loaded_globals 3) = loaded_globals 3
   \<and> gSecurityLevel (glob (fst (run
        [(quiet_env, Load 1), (quiet_env, SetSecurityLevelCall 2),
         (quiet_env, SetSecurityLevelCall (- 4)), (quiet_env, SetSecurityLevelCall 4)]
        initial_process))) = 2"
proof -
  have "gSecurityLevel (glob (fst (run
        [(quiet_env, Load 1), (quiet_env, SetSecurityLevelCall 2),
         (quiet_env, SetSecurityLevelCall (- 4)), (quiet_env, SetSecurityLevelCall 4)]
        initial_process))) = 2"
    by (simp add: JNI_OnLoad_def setNativeSecurityLevel_def setSecurityLevel_def
        initial_process_def initial_globals_def Let_def)
  then show ?thesis
    using setSecurityLevel_rejects_out_of_range[of 7 "loaded_globals 2"
        "[(quiet_env, Load 1), (quiet_env, SetSecurityLevelCall 2),
          (quiet_env, SetSecurityLevelCall (- 4)), (quiet_env, SetSecurityLevelCall 4)]"]
      setSecurityLevel_rejects_out_of_range[of 0 "loaded_globals 3" "[]"]
    by simp
qed

subsection \<open>C3: the level after initialisation\<close>

text \<open>
  Claim C3. After \<^verbatim>\<open>initializeNativeSecurity\<close> the level is 3 when the emulator collector
  or the hook collector returned true during the call, and 1 otherwise.
\<close>

theorem initializeNativeSecurity_level:
  "gSecurityLevel (fst (initializeNativeSecurity env g)) =
     (if fst (detectEmulator env g) \<or> isHookingFrameworkPresent env then 3 else 1)"
  by (simp add: initializeNativeSecurity_def setSecurityLevel_def Let_def split_def)

text \<open>On the emulator the level becomes 3; on the quiet device a level of 2 becomes 1.\<close>

theorem initializeNativeSecurity_level_witness:
  "gSecurityLevel (fst (initializeNativeSecurity emulator_env (loaded_globals 1))) = 3
   \<and> gSecurityLevel (fst (initializeNativeSecurity quiet_env (loaded_globals 2))) = 1"
  using initializeNativeSecurity_level[of emulator_env "loaded_globals 1"]
    initializeNativeSecurity_level[of quiet_env "loaded_globals 2"]
  by (simp add: loaded_globals_def detectEmulator_def env_times emulator_env_probes
      quiet_env_probes split_def)

subsection \<open>C4: the emulator cache\<close>

text \<open>
  Claim C4. When a cached result exists (the time stamp is not 0) and its age is below 60
  seconds, \<^verbatim>\<open>detectEmulator\<close> returns the cached value, makes no probe call and leaves the
  globals unchanged. Otherwise, in particular whenever the age is 60 seconds or more, it
  runs the checks (at least one call is made), stores their result, true or false, with
  the current time, and returns it.
\<close>

theorem detectEmulator_cache:
  "(gLastEmulatorCheck g \<noteq> 0 \<and> time_now env - gLastEmulatorCheck g < 60 \<longrightarrow>
      detectEmulator env g = (gIsEmulator g, g, []))
   \<and> (gLastEmulatorCheck g = 0 \<or> time_now env - gLastEmulatorCheck g \<ge> 60 \<longrightarrow>
      detectEmulator env g =
        (fst (emulator_checks env),
         g\<lparr>gLastEmulatorCheck := time_now env, gIsEmulator := fst (emulator_checks env)\<rparr>,
         snd (emulator_checks env))
      \<and> snd (emulator_checks env) \<noteq> [])"
  using emulator_checks_calls[of env]
  by (auto simp: detectEmulator_def Let_def split_def)

text \<open>
  At age 59 a cached \<open>True\<close> is returned on a device where the checks would say
  \<open>False\<close>; at age 60 the checks run and replace the cached value; with no cached result
  the checks run.
\<close>

theorem detectEmulator_cache_witness:
  "detectEmulator quiet_env (cached_globals 1699999941 True)
     = (True, cached_globals 1699999941 True, [])
   \<and> detectEmulator emulator_env (cached_globals 1699999940 False)
     = (True, cached_globals 1700000000 True, [PropertyGet ''ro.hardware''])
   \<and> fst (detectEmulator quiet_env (cached_globals 1699999940 True)) = False
   \<and> detectEmulator emulator_env (loaded_globals 1)
     = (True, cached_globals 1700000000 True, [PropertyGet ''ro.hardware''])"
  using detectEmulator_cache[of "cached_globals 1699999941 True" quiet_env]
    detectEmulator_cache[of "cached_globals 1699999940 False" emulator_env]
    detectEmulator_cache[of "cached_globals 1699999940 True" quiet_env]
    detectEmulator_cache[of "loaded_globals 1" emulator_env]
  by (simp add: cached_globals_def loaded_globals_def env_times emulator_env_probes
      quiet_env_probes)

subsection \<open>C9: hiding process information always reports success\<close>

text \<open>
  Claim C9. For every process id and every outcome of \<^verbatim>\<open>open\<close> and \<^verbatim>\<open>write\<close>,
  \<^verbatim>\<open>hideProcessInfo\<close> returns true and the entry point returns \<^verbatim>\<open>JNI_TRUE\<close>.
\<close>

theorem hideProcessInfo_always_true:
  "fst (hideProcessInfo env pid) = True \<and> fst (nativeHideProcessInfo env pid) = JNI_TRUE"
  by (simp add: hideProcessInfo_def nativeHideProcessInfo_def to_jboolean_def Let_def)

text \<open>The result is true when \<^verbatim>\<open>open\<close> fails, and when \<^verbatim>\<open>open\<close> succeeds and \<^verbatim>\<open>write\<close> fails.\<close>

theorem hideProcessInfo_always_true_witness:
  "open_cmdline quiet_env < 0
   \<and> hideProcessInfo quiet_env 4242 = (True, [])
   \<and> fst (nativeHideProcessInfo (quiet_env\<lparr>open_cmdline := 7, write_cmdline := - 1\<rparr>) 4242)
       = JNI_TRUE"
  using hideProcessInfo_always_true[of quiet_env 4242]
    hideProcessInfo_always_true[of "quiet_env\<lparr>open_cmdline := 7, write_cmdline := - 1\<rparr>" 4242]
  by (simp add: hideProcessInfo_def quiet_env_def)

subsection \<open>C5: renaming on every 20th pass\<close>

text \<open>
  Claim C5 as stated: on every pass whose counter is divisible by 20, whether or not a
  signal was true, the loop renames the process to the entry \<open>counter mod 4\<close> of
  \<open>system_procs\<close>. It fails: the renaming sits inside the block guarded by
  \<^verbatim>\<open>if (traced || hooked || timing_anomaly || in_emulator || in_virtual_env)\<close>. On the quiet
  device, at counter 20 and level 1, all five signals are evaluated, none is true, and the
  pass does nothing but sleep.
\<close>

theorem spoof_regardless_counterexample:
  "(20::int) smod 20 = 0
   \<and> \<not> any_threat (fst (iteration_signals quiet_env (loaded_globals 1) 20))
   \<and> snd (snd (monitor_iteration quiet_env (loaded_globals 1) 20)) = [Usleep 300000]
   \<and> PrctlSetName (system_procs ! nat (20 smod 4))
        \<notin> set (snd (snd (monitor_iteration quiet_env (loaded_globals 1) 20)))"
proof -
  have s: "\<not> any_threat (fst (iteration_signals quiet_env (loaded_globals 1) 20))"
    by (simp add: iteration_signals_fresh loaded_globals_simps any_threat_def quiet_env_probes)
  have l: "gSecurityLevel (snd (iteration_signals quiet_env (loaded_globals 1) 20)) = 1"
    by (simp add: iteration_signals_level loaded_globals_simps)
  have a: "snd (snd (monitor_iteration quiet_env (loaded_globals 1) 20)) = [Usleep 300000]"
    using s l by (simp add: monitor_iteration_def Let_def split_def sleep_time_ms_def)
  show ?thesis
    using s a by (simp add: smod_numeral_simps)
qed

text \<open>
  Claim C5, amended. On every pass whose counter is divisible by 20 and on which at least
  one of the five signals evaluated true, the loop calls \<^verbatim>\<open>spoofProcessName\<close> once, with the
  entry \<open>counter mod 4\<close> of \<open>system_procs\<close>; on a pass whose counter is divisible by 20
  and on which no signal evaluated true, it makes no such call.
\<close>

theorem spoof_every_20th_on_threat:
  "c smod 20 = 0 \<Longrightarrow>
     spoofed_names (snd (snd (monitor_iteration env g c))) =
       (if any_threat (fst (iteration_signals env g c))
        then [system_procs ! nat (c smod 4)] else [])"
  using smod_20_imp_4[of c]
  by (simp add: monitor_iteration_spoofed system_procs_def)

text \<open>At counter 40 the traced device is renamed to \<^verbatim>\<open>system_server\<close>, the quiet device is not.\<close>

theorem spoof_every_20th_on_threat_witness:
  "(40::int) smod 20 = 0
   \<and> any_threat (fst (iteration_signals traced_env (loaded_globals 1) 40))
   \<and> spoofed_names (snd (snd (monitor_iteration traced_env (loaded_globals 1) 40)))
       = [''system_server'']
   \<and> \<not> any_threat (fst (iteration_signals quiet_env (loaded_globals 1) 40))
   \<and> spoofed_names (snd (snd (monitor_iteration quiet_env (loaded_globals 1) 40))) = []"
proof -
  have m: "(40::int) smod 20 = 0" "(40::int) smod 4 = 0"
    by (simp_all add: smod_numeral_simps)
  have t: "any_threat (fst (iteration_signals traced_env (loaded_globals 1) 40))"
    by (simp add: iteration_signals_fresh loaded_globals_simps any_threat_def traced_env_probes)
  have q: "\<not> any_threat (fst (iteration_signals quiet_env (loaded_globals 1) 40))"
    by (simp add: iteration_signals_fresh loaded_globals_simps any_threat_def quiet_env_probes)
  have "spoofed_names (snd (snd (monitor_iteration traced_env (loaded_globals 1) 40)))
       = [''system_server'']"
    using spoof_every_20th_on_threat[OF m(1), of traced_env "loaded_globals 1"] t m(2)
    by (simp add: system_procs_def)
  moreover have "spoofed_names (snd (snd (monitor_iteration quiet_env (loaded_globals 1) 40))) = []"
    using spoof_every_20th_on_threat[OF m(1), of quiet_env "loaded_globals 1"] q
    by simp
  ultimately show ?thesis using m t q by blast
qed

subsection \<open>C6: noise injection and the timing signal\<close>

text \<open>
  Claim C6 as stated: on no pass does the noise injection fire when the timing anomaly is
  the only signal that evaluated true. It fails: the guard of the protection block is the
  disjunction of all five signals, and at level 3 the block starts with
  \<^verbatim>\<open>obfuscateMemory\<close>. On the slow device, at counter 5 and level 3, the timing anomaly is
  the only true signal and the pass leaks a noise buffer.
\<close>

theorem noise_on_timing_alone_counterexample:
  "fst (iteration_signals slow_env (loaded_globals 3) 5) =
     \<lparr>sig_traced = False, sig_hooked = False, sig_in_emulator = False,
      sig_in_virtual_env = False, sig_timing_anomaly = True\<rparr>
   \<and> snd (snd (monitor_iteration slow_env (loaded_globals 3) 5)) =
       [LeakNoiseBuffer 1024, PrctlSetDumpable, Usleep 100000]"
proof -
  have s: "fst (iteration_signals slow_env (loaded_globals 3) 5) =
     \<lparr>sig_traced = False, sig_hooked = False, sig_in_emulator = False,
      sig_in_virtual_env = False, sig_timing_anomaly = True\<rparr>"
    by (simp add: iteration_signals_fresh loaded_globals_simps slow_env_probes
        smod_numeral_simps)
  have l: "gSecurityLevel (snd (iteration_signals slow_env (loaded_globals 3) 5)) = 3"
    by (simp add: iteration_signals_level loaded_globals_simps)
  have "snd (snd (monitor_iteration slow_env (loaded_globals 3) 5)) =
       [LeakNoiseBuffer 1024, PrctlSetDumpable, Usleep 100000]"
    using l
    by (simp add: monitor_iteration_def Let_def split_def s any_threat_def sleep_time_ms_def
        apply_protections_def obfuscateMemory_def blockPtraceAttach_def smod_numeral_simps)
  with s show ?thesis by simp
qed

text \<open>
  Claim C6, amended. On a pass on which the timing anomaly is the only signal that
  evaluated true, the noise injection fires exactly when the level is 3 or more; at the
  levels 1 and 2 it does not fire.
\<close>

theorem noise_on_timing_alone_iff_maximum:
  "fst (iteration_signals env g c) =
     \<lparr>sig_traced = False, sig_hooked = False, sig_in_emulator = False,
      sig_in_virtual_env = False, sig_timing_anomaly = True\<rparr> \<Longrightarrow>
   (LeakNoiseBuffer 1024 \<in> set (snd (snd (monitor_iteration env g c)))
      \<longleftrightarrow> gSecurityLevel g \<ge> 3)
   \<and> (\<forall>n. LeakNoiseBuffer n \<in> set (snd (snd (monitor_iteration env g c)))
         \<longrightarrow> gSecurityLevel g \<ge> 3)"
  by (simp add: monitor_iteration_noise any_threat_def)

text \<open>On the slow device at counter 5: no noise buffer at level 2, one at level 3.\<close>

theorem noise_on_timing_alone_iff_maximum_witness:
  "fst (iteration_signals slow_env (loaded_globals 2) 5) =
     \<lparr>sig_traced = False, sig_hooked = False, sig_in_emulator = False,
      sig_in_virtual_env = False, sig_timing_anomaly = True\<rparr>
   \<and> LeakNoiseBuffer 1024 \<notin> set (snd (snd (monitor_iteration slow_env (loaded_globals 2) 5)))
   \<and> fst (iteration_signals slow_env (loaded_globals 3) 5) =
     \<lparr>sig_traced = False, sig_hooked = False, sig_in_emulator = False,
      sig_in_virtual_env = False, sig_timing_anomaly = True\<rparr>
   \<and> LeakNoiseBuffer 1024 \<in> set (snd (snd (monitor_iteration slow_env (loaded_globals 3) 5)))"
proof -
  have s: "fst (iteration_signals slow_env (loaded_globals l) 5) =
     \<lparr>sig_traced = False, sig_hooked = False, sig_in_emulator = False,
      sig_in_virtual_env = False, sig_timing_anomaly = True\<rparr>" for l
    by (simp add: iteration_signals_fresh loaded_globals_simps slow_env_probes
        smod_numeral_simps)
  have "LeakNoiseBuffer 1024 \<notin> set (snd (snd (monitor_iteration slow_env (loaded_globals 2) 5)))"
    using noise_on_timing_alone_iff_maximum[OF s[of 2]] by (simp add: loaded_globals_simps)
  moreover
  have "LeakNoiseBuffer 1024 \<in> set (snd (snd (monitor_iteration slow_env (loaded_globals 3) 5)))"
    using noise_on_timing_alone_iff_maximum[OF s[of 3]] by (simp add: loaded_globals_simps)
  ultimately show ?thesis using s by blast
qed

subsection \<open>C7: trace detection\<close>

text \<open>
  Claim C7. \<^verbatim>\<open>isBeingTraced\<close> returns false when \<^verbatim>\<open>/proc/self/status\<close> cannot be opened,
  when \<^verbatim>\<open>read\<close> fails or delivers nothing, when the text read holds no \<^verbatim>\<open>TracerPid:\<close>, and
  when no number follows it. When the text read (at most 511 bytes) holds its first
  \<^verbatim>\<open>TracerPid:\<close> followed by white space and a run of decimal digits within the range of
  \<^verbatim>\<open>int\<close>, it returns true if and only if the number written there is not zero. No case
  returns anything but a truth value.
\<close>

theorem isBeingTraced_tracer_field:
  "(proc_self_status env = None \<longrightarrow> \<not> isBeingTraced env)
   \<and> (proc_self_status env = Some ReadError \<longrightarrow> \<not> isBeingTraced env)
   \<and> (proc_self_status env = Some (ReadBytes []) \<longrightarrow> \<not> isBeingTraced env)
   \<and> (proc_self_status env = Some (ReadBytes bs)
        \<and> strstr (c_str (take 511 bs)) tracer_needle = None \<longrightarrow> \<not> isBeingTraced env)
   \<and> (proc_self_status env = Some (ReadBytes bs)
        \<and> strstr (c_str (take 511 bs)) tracer_needle = Some line
        \<and> sscanf_d (drop (length tracer_needle) line) = None \<longrightarrow> \<not> isBeingTraced env)
   \<and> (proc_self_status env = Some (ReadBytes bs)
        \<and> take 511 bs = pre @ tracer_needle @ ws @ ds @ rest
        \<and> strstr (pre @ tracer_needle) tracer_needle = Some tracer_needle
        \<and> CHR 0x00 \<notin> set pre
        \<and> (\<forall>c\<in>set ws. isspace c)
        \<and> ds \<noteq> [] \<and> (\<forall>c\<in>set ds. isdigit c)
        \<and> (rest = [] \<or> \<not> isdigit (hd rest))
        \<and> decimal ds \<le> 2147483647 \<longrightarrow>
      isBeingTraced env = (decimal ds \<noteq> 0))"
proof (intro conjI impI)
  assume "proc_self_status env = None"
  then show "\<not> isBeingTraced env" by (simp add: isBeingTraced_def)
next
  assume "proc_self_status env = Some ReadError"
  then show "\<not> isBeingTraced env" by (simp add: isBeingTraced_def)
next
  assume "proc_self_status env = Some (ReadBytes [])"
  then show "\<not> isBeingTraced env" by (simp add: isBeingTraced_def)
next
  assume "proc_self_status env = Some (ReadBytes bs)
        \<and> strstr (c_str (take 511 bs)) tracer_needle = None"
  then show "\<not> isBeingTraced env" by (simp add: isBeingTraced_def Let_def)
next
  assume "proc_self_status env = Some (ReadBytes bs)
        \<and> strstr (c_str (take 511 bs)) tracer_needle = Some line
        \<and> sscanf_d (drop (length tracer_needle) line) = None"
  then show "\<not> isBeingTraced env" by (simp add: isBeingTraced_def Let_def)
next
  assume a: "proc_self_status env = Some (ReadBytes bs)
        \<and> take 511 bs = pre @ tracer_needle @ ws @ ds @ rest
        \<and> strstr (pre @ tracer_needle) tracer_needle = Some tracer_needle
        \<and> CHR 0x00 \<notin> set pre
        \<and> (\<forall>c\<in>set ws. isspace c)
        \<and> ds \<noteq> [] \<and> (\<forall>c\<in>set ds. isdigit c)
        \<and> (rest = [] \<or> \<not> isdigit (hd rest))
        \<and> decimal ds \<le> 2147483647"
  show "isBeingTraced env = (decimal ds \<noteq> 0)"
    by (rule isBeingTraced_field[of env bs pre ws ds rest]) (use a in blast)+
qed

text \<open>
  False without a readable file, without data, without the field and without a number in
  it; true with tracer 4711; false with tracer 0.
\<close>

theorem isBeingTraced_tracer_field_witness:
  "\<not> isBeingTraced unreadable_env
   \<and> \<not> isBeingTraced read_error_env
   \<and> \<not> isBeingTraced empty_read_env
   \<and> \<not> isBeingTraced no_field_env
   \<and> \<not> isBeingTraced bad_field_env
   \<and> isBeingTraced traced_env
   \<and> \<not> isBeingTraced quiet_env"
proof -
  have a: "\<not> isBeingTraced unreadable_env"
    using isBeingTraced_tracer_field[of unreadable_env]
    by (simp add: unreadable_env_def)
  have b: "\<not> isBeingTraced read_error_env"
    using isBeingTraced_tracer_field[of read_error_env]
    by (simp add: read_error_env_def)
  have c: "\<not> isBeingTraced empty_read_env"
    using isBeingTraced_tracer_field[of empty_read_env]
    by (simp add: empty_read_env_def)
  have d: "\<not> isBeingTraced no_field_env"
    using isBeingTraced_tracer_field[of no_field_env status_head] status_head_no_needle
    by (simp add: no_field_env_def)
  have e: "\<not> isBeingTraced bad_field_env"
    using isBeingTraced_tracer_field[of bad_field_env "status_text ''none''"
        "tracer_needle @ [CHR 0x09] @ ''none'' @ status_tail"]
      status_bad_line status_bad_scan
    by (simp add: bad_field_env_def)
  have f: "isBeingTraced traced_env"
    using isBeingTraced_tracer_field[of traced_env "status_text ''4711''" _ status_head
        "[CHR 0x09]" "''4711''" status_tail]
      status_text_split[of "''4711''"] status_head_first status_parts digits_4711
    by (simp add: traced_env_def)
  have g: "\<not> isBeingTraced quiet_env"
    using isBeingTraced_tracer_field[of quiet_env "status_text ''0''" _ status_head
        "[CHR 0x09]" "''0''" status_tail]
      status_text_split[of "''0''"] status_head_first status_parts digits_0
    by (simp add: quiet_env_def)
  from a b c d e f g show ?thesis by blast
qed

subsection \<open>C8: the monitor thread is started at most once\<close>

text \<open>
  Claim C8. When the running flag is set, \<^verbatim>\<open>JNI_OnLoad\<close> creates no thread and leaves the
  flag, the level and the emulator cache as they are: it stores the VM pointer it was
  given and nothing else, so with the pointer already stored the globals are unchanged.
  The monitor threads of the process stay the same. Over every
  sequence of entry-point calls and loop passes from the initial process, at most one
  monitor thread exists and \<^verbatim>\<open>pthread_create\<close> is called at most once.
\<close>

theorem monitor_started_at_most_once:
  "(gSecurityThreadRunning g \<longrightarrow>
      JNI_OnLoad vm g = (JNI_VERSION_1_6, g\<lparr>gJavaVM := vm\<rparr>, []))
   \<and> (gSecurityThreadRunning g \<and> gJavaVM g = vm \<longrightarrow>
      JNI_OnLoad vm g = (JNI_VERSION_1_6, g, []))
   \<and> (gSecurityThreadRunning (glob p) \<longrightarrow>
      step env (Load vm) p = (p\<lparr>glob := (glob p)\<lparr>gJavaVM := vm\<rparr>\<rparr>, []))
   \<and> length (monitors (fst (run evs initial_process))) \<le> 1
   \<and> count_list (snd (run evs initial_process)) PthreadCreate \<le> 1"
proof -
  have "one_monitor initial_process"
    by (simp add: one_monitor_def initial_process_def)
  then have "one_monitor (fst (run evs initial_process))" by (rule run_one_monitor)
  then have "length (monitors (fst (run evs initial_process))) \<le> 1"
    by (simp add: one_monitor_def)
  moreover have "count_list (snd (run evs initial_process)) PthreadCreate \<le> 1"
    by (rule run_creates)
  moreover have "gSecurityThreadRunning g \<longrightarrow>
      JNI_OnLoad vm g = (JNI_VERSION_1_6, g\<lparr>gJavaVM := vm\<rparr>, [])"
    by (simp add: JNI_OnLoad_def)
  moreover have "gSecurityThreadRunning g \<and> gJavaVM g = vm \<longrightarrow>
      JNI_OnLoad vm g = (JNI_VERSION_1_6, g, [])"
    by (auto simp: JNI_OnLoad_def)
  moreover have "gSecurityThreadRunning (glob p) \<longrightarrow>
      step env (Load vm) p = (p\<lparr>glob := (glob p)\<lparr>gJavaVM := vm\<rparr>\<rparr>, [])"
    by (simp add: JNI_OnLoad_def)
  ultimately show ?thesis by blast
qed

text \<open>
  Loading twice creates one thread; a load with the flag set changes neither the globals
  nor the threads.
\<close>

theorem monitor_started_at_most_once_witness:
  "gSecurityThreadRunning (loaded_globals 1)
   \<and> JNI_OnLoad 1 (loaded_globals 1) = (JNI_VERSION_1_6, loaded_globals 1, [])
   \<and> step quiet_env (Load 1) \<lparr>glob = loaded_globals 1, monitors = [0]\<rparr>
       = (\<lparr>glob = loaded_globals 1, monitors = [0]\<rparr>, [])
   \<and> run [(quiet_env, Load 1), (quiet_env, Load 1)] initial_process
       = (\<lparr>glob = loaded_globals 1, monitors = [0]\<rparr>, [PthreadCreate])
   \<and> length (monitors (fst (run [(quiet_env, Load 1), (quiet_env, Load 1)] initial_process))) = 1
   \<and> count_list (snd (run [(quiet_env, Load 1), (quiet_env, Load 1)] initial_process))
        PthreadCreate = 1"
proof -
  have r: "run [(quiet_env, Load 1), (quiet_env, Load 1)] initial_process
       = (\<lparr>glob = loaded_globals 1, monitors = [0]\<rparr>, [PthreadCreate])"
    by (simp add: JNI_OnLoad_def initial_process_def initial_globals_def loaded_globals_def
        quiet_env_def Let_def)
  have "JNI_OnLoad 1 (loaded_globals 1) = (JNI_VERSION_1_6, loaded_globals 1, [])
        \<and> step quiet_env (Load 1) \<lparr>glob = loaded_globals 1, monitors = [0]\<rparr>
            = (\<lparr>glob = loaded_globals 1, monitors = [0]\<rparr>, [])"
    using monitor_started_at_most_once[of "loaded_globals 1" 1
        "\<lparr>glob = loaded_globals 1, monitors = [0]\<rparr>" quiet_env
        "[(quiet_env, Load 1), (quiet_env, Load 1)]"]
    by (simp add: loaded_globals_def)
  then show ?thesis
    using r by (simp add: loaded_globals_simps)
qed

subsection \<open>C10: the loop only ever picks the first name\<close>

text \<open>
  Claim C10. Whenever a loop pass renames the process, its counter is divisible by 20,
  hence by 4, the index \<open>counter mod 4\<close> is 0 and the name is \<^verbatim>\<open>system_server\<close>, the first
  entry of \<open>system_procs\<close>. The same holds for every renaming in a run of the loop: the
  names \<^verbatim>\<open>zygote\<close>, \<^verbatim>\<open>media\<close> and \<^verbatim>\<open>surfaceflinger\<close> are never chosen.
\<close>

theorem spoofed_name_always_system_server:
  "(PrctlSetName name \<in> set (snd (snd (monitor_iteration env g c))) \<longrightarrow>
      c smod 20 = 0 \<and> c smod 4 = 0 \<and> array_read system_procs (c smod 4) = Some name
      \<and> name = ''system_server'')
   \<and> (PrctlSetName name \<in> set (snd (snd (securityMonitorThread envs g c))) \<longrightarrow>
      name = ''system_server'' \<and> name \<notin> {''zygote'', ''media'', ''surfaceflinger''})"
proof (intro conjI impI)
  assume "PrctlSetName name \<in> set (snd (snd (monitor_iteration env g c)))"
  then have n: "name \<in> set (spoofed_names (snd (snd (monitor_iteration env g c))))"
    by (simp add: in_spoofed_names)
  then have c20: "c smod 20 = 0" and nm: "name = ''system_server''"
    by (auto simp: monitor_iteration_spoofed split: if_splits)
  from c20 have c4: "c smod 4 = 0" by (rule smod_20_imp_4)
  show "c smod 20 = 0" by (fact c20)
  show "c smod 4 = 0" by (fact c4)
  show "name = ''system_server''" by (fact nm)
  show "array_read system_procs (c smod 4) = Some name"
    unfolding c4 nm by (simp add: array_read_def system_procs_def)
next
  assume "PrctlSetName name \<in> set (snd (snd (securityMonitorThread envs g c)))"
  then have "name \<in> set (spoofed_names (snd (snd (securityMonitorThread envs g c))))"
    by (simp add: in_spoofed_names)
  with loop_spoofed[of envs g c] have nm: "name = ''system_server''" by auto
  then show "name = ''system_server''" .
  from nm show "name \<notin> {''zygote'', ''media'', ''surfaceflinger''}" by simp
qed

text \<open>With a tracer attached, the pass at counter 40 renames the process to \<^verbatim>\<open>system_server\<close>.\<close>

theorem spoofed_name_always_system_server_witness:
  "PrctlSetName ''system_server''
     \<in> set (snd (snd (monitor_iteration traced_env (loaded_globals 1) 40)))
   \<and> (40::int) smod 20 = 0 \<and> (40::int) smod 4 = 0
   \<and> array_read system_procs (40 smod 4) = Some ''system_server''
   \<and> PrctlSetName ''system_server''
     \<in> set (snd (snd (securityMonitorThread [traced_env] (loaded_globals 1) 40)))
   \<and> ''system_server'' \<notin> {''zygote'', ''media'', ''surfaceflinger''}"
proof -
  have t: "any_threat (fst (iteration_signals traced_env (loaded_globals 1) 40))"
    by (simp add: iteration_signals_fresh loaded_globals_simps any_threat_def traced_env_probes)
  have "spoofed_names (snd (snd (monitor_iteration traced_env (loaded_globals 1) 40)))
          = [''system_server'']"
    using t by (simp add: monitor_iteration_spoofed smod_numeral_simps)
  then have i: "PrctlSetName ''system_server''
     \<in> set (snd (snd (monitor_iteration traced_env (loaded_globals 1) 40)))"
    by (simp add: in_spoofed_names[symmetric])
  then have l: "PrctlSetName ''system_server''
     \<in> set (snd (snd (securityMonitorThread [traced_env] (loaded_globals 1) 40)))"
    by (simp add: loaded_globals_simps split_def Let_def)
  show ?thesis
    using spoofed_name_always_system_server[of "''system_server''" traced_env
        "loaded_globals 1" 40 "[traced_env]"] i l
    by simp
qed

end
